theory Spec2Isabelle
  imports Complex_Main
begin

section \<open>Python values\<close>

text \<open>
  A Python \<open>str\<close> is modelled by the \<open>string\<close> of its UTF-8 bytes: concatenation,
  equality and the removal of the ASCII space are the same on both sides. The values
  that \<open>response.json()\<close> can return, and the dictionaries the services build, are
  \<open>json\<close> values; a \<open>dict\<close> is an association list in insertion order, read with
  \<open>map_of\<close>.
\<close>

datatype json =
    JNull
  | JBool bool
  | JInt int
  | JFloat real
  | JStr string
  | JArr "json list"
  | JObj "(string \<times> json) list"

type_synonym pydict = "(string \<times> json) list"

text \<open>
  The exception classes that matter to the \<open>except\<close> clauses of the services. An
  exception is represented by the first class an \<open>except\<close> clause tests it against:
  the timeout, connection and HTTP-status errors of \<open>requests\<close> are all
  \<open>RequestException\<close>, and so is its JSON-decoding error from version 2.27 on (a
  \<open>ValueError\<close> before).
\<close>

datatype exn =
    RequestException
  | KeyError
  | ValueError
  | IndexError
  | TypeError
  | AttributeError
  | OverflowError
  | OSError

definition andThen :: "exn + 'a \<Rightarrow> ('a \<Rightarrow> exn + 'b) \<Rightarrow> exn + 'b" where
  "andThen m f = (case m of Inl e \<Rightarrow> Inl e | Inr x \<Rightarrow> f x)"

text \<open>\<open>v[k]\<close> for a string key \<open>k\<close>.\<close>

definition subscript :: "json \<Rightarrow> string \<Rightarrow> exn + json" where
  "subscript v k =
     (case v of
        JObj kvs \<Rightarrow> (case map_of kvs k of None \<Rightarrow> Inl KeyError | Some x \<Rightarrow> Inr x)
      | _ \<Rightarrow> Inl TypeError)"

definition is_continuation :: "char \<Rightarrow> bool" where
  "is_continuation c = (128 \<le> (of_char c :: nat) \<and> (of_char c :: nat) < 192)"

text \<open>
  \<open>v[0]\<close>: the first element of a list, the first character of a string (its first
  UTF-8 sequence); a dictionary decoded from JSON has no integer key.
\<close>

definition subscript0 :: "json \<Rightarrow> exn + json" where
  "subscript0 v =
     (case v of
        JArr xs \<Rightarrow> (case xs of [] \<Rightarrow> Inl IndexError | x # _ \<Rightarrow> Inr x)
      | JStr s \<Rightarrow> (case s of [] \<Rightarrow> Inl IndexError
                    | c # cs \<Rightarrow> Inr (JStr (c # takeWhile is_continuation cs)))
      | JObj kvs \<Rightarrow> Inl KeyError
      | _ \<Rightarrow> Inl TypeError)"

text \<open>\<open>v.get(k)\<close>: only a dictionary has the method.\<close>

definition dict_get :: "json \<Rightarrow> string \<Rightarrow> exn + json" where
  "dict_get v k =
     (case v of
        JObj kvs \<Rightarrow> Inr (case map_of kvs k of None \<Rightarrow> JNull | Some x \<Rightarrow> x)
      | _ \<Rightarrow> Inl AttributeError)"

subsection \<open>Strings\<close>

definition is_ascii :: "string \<Rightarrow> bool" where
  "is_ascii s = list_all (\<lambda>c. (of_char c :: nat) < 128) s"

definition ascii_lower :: "char \<Rightarrow> char" where
  "ascii_lower c =
     (if 65 \<le> (of_char c :: nat) \<and> (of_char c :: nat) \<le> 90
      then char_of ((of_char c :: nat) + 32) else c)"

definition ascii_upper :: "char \<Rightarrow> char" where
  "ascii_upper c =
     (if 97 \<le> (of_char c :: nat) \<and> (of_char c :: nat) \<le> 122
      then char_of ((of_char c :: nat) - 32) else c)"

text \<open>\<open>s.replace(" ", "")\<close>\<close>

definition replace_space :: "string \<Rightarrow> string" where
  "replace_space s = filter (\<lambda>c. c \<noteq> CHR '' '') s"

text \<open>\<open>', '.join(xs)\<close>\<close>

fun join_comma :: "string list \<Rightarrow> string" where
  "join_comma [] = []"
| "join_comma [x] = x"
| "join_comma (x # y # ys) = x @ '', '' @ join_comma (y # ys)"

definition quoted :: "string \<Rightarrow> string" where
  "quoted s = [CHR 0x27] @ s @ [CHR 0x27]"

section \<open>The world outside the program\<close>

text \<open>
  What the services read from their runtime and from the network, none of it in the
  repository:
  \<^item> \<open>unicode_lower\<close>, \<open>unicode_capitalize\<close>: \<open>str.lower\<close> and \<open>str.capitalize\<close> on a
    string that is not pure ASCII (the Unicode case tables);
  \<^item> \<open>py_str\<close>: the text an f-string gives a value that is not a \<open>str\<close>;
  \<^item> \<open>ZoneInfo\<close>: the time-zone database, \<open>None\<close> where the constructor raises; a zone
    is its offset from UTC in seconds at an instant;
  \<^item> \<open>clock\<close>: the instant of the call, in seconds since the epoch;
  \<^item> \<open>fromtimestamp\<close>: \<open>datetime.fromtimestamp\<close>, with the exception it raises on a
    value it cannot convert;
  \<^item> \<open>platform_year\<close>: the text \<open>strftime\<close> gives \<open>%Y\<close> for a year outside 1000 to
    9999; it is the C library's and the Python version's (a year below 1000 is written
    without padding by some and with zeros by others);
  \<^item> \<open>http_get\<close>: the outcome of \<open>requests.get(url, params, timeout)\<close> followed by
    \<open>raise_for_status()\<close> and \<open>json()\<close>.
  A \<open>datetime\<close> is the number of seconds its wall clock shows since 1970-01-01 00:00.
\<close>

type_synonym tzinfo = "int \<Rightarrow> int"
type_synonym datetime = int

record world =
  unicode_lower :: "string \<Rightarrow> string"
  unicode_capitalize :: "string \<Rightarrow> string"
  py_str :: "json \<Rightarrow> string"
  ZoneInfo :: "string \<Rightarrow> tzinfo option"
  clock :: int
  fromtimestamp :: "json \<Rightarrow> exn + datetime"
  platform_year :: "int \<Rightarrow> string"
  http_get :: "string \<Rightarrow> pydict \<Rightarrow> nat \<Rightarrow> exn + json"

definition lower :: "world \<Rightarrow> string \<Rightarrow> string" where
  "lower w s = (if is_ascii s then map ascii_lower s else unicode_lower w s)"

definition capitalize :: "world \<Rightarrow> string \<Rightarrow> string" where
  "capitalize w s =
     (if is_ascii s
      then (case s of [] \<Rightarrow> [] | c # cs \<Rightarrow> ascii_upper c # map ascii_lower cs)
      else unicode_capitalize w s)"

text \<open>\<open>v.capitalize()\<close>: only a \<open>str\<close> has the method.\<close>

definition capitalize_method :: "world \<Rightarrow> json \<Rightarrow> exn + string" where
  "capitalize_method w v =
     (case v of JStr s \<Rightarrow> Inr (capitalize w s) | _ \<Rightarrow> Inl AttributeError)"

text \<open>\<open>{v}\<close> inside an f-string.\<close>

definition fmt :: "world \<Rightarrow> json \<Rightarrow> string" where
  "fmt w v = (case v of JStr s \<Rightarrow> s | _ \<Rightarrow> py_str w v)"

subsection \<open>Dates and times\<close>

definition digit_char :: "nat \<Rightarrow> char" where
  "digit_char n = char_of (48 + n)"

definition pad2 :: "nat \<Rightarrow> string" where
  "pad2 n = [digit_char (n div 10), digit_char (n mod 10)]"

definition pad4 :: "nat \<Rightarrow> string" where
  "pad4 n = [digit_char (n div 1000), digit_char (n div 100 mod 10),
             digit_char (n div 10 mod 10), digit_char (n mod 10)]"

text \<open>\<open>datetime.now(tz)\<close>\<close>

definition datetime_now :: "world \<Rightarrow> tzinfo \<Rightarrow> datetime" where
  "datetime_now w tz = clock w + tz (clock w)"

text \<open>\<open>dt.strftime('%H:%M')\<close>\<close>

definition strftime_HM :: "datetime \<Rightarrow> string" where
  "strftime_HM dt =
     pad2 (nat (dt div 3600 mod 24)) @ '':'' @ pad2 (nat (dt div 60 mod 60))"

text \<open>
  The civil date of a day number (days since 1970-01-01), in the proleptic Gregorian
  calendar that \<open>datetime\<close> uses: year, month, day.
\<close>

definition civil_from_days :: "int \<Rightarrow> int \<times> int \<times> int" where
  "civil_from_days days =
     (let z = days + 719468;
          era = z div 146097;
          doe = z - era * 146097;
          yoe = (doe - doe div 1460 + doe div 36524 - doe div 146096) div 365;
          doy = doe - (365 * yoe + yoe div 4 - yoe div 100);
          mp = (5 * doy + 2) div 153;
          d = doy - (153 * mp + 2) div 5 + 1;
          m = (if mp < 10 then mp + 3 else mp - 9);
          y = yoe + era * 400 + (if m \<le> 2 then 1 else 0)
      in (y, m, d))"

definition year_of :: "datetime \<Rightarrow> int" where
  "year_of dt = fst (civil_from_days (dt div 86400))"

definition month_of :: "datetime \<Rightarrow> int" where
  "month_of dt = fst (snd (civil_from_days (dt div 86400)))"

definition day_of :: "datetime \<Rightarrow> int" where
  "day_of dt = snd (snd (civil_from_days (dt div 86400)))"

text \<open>
  \<open>%Y\<close>: the four digits of a year from 1000 to 9999 on every platform, the platform's
  own text for another year.
\<close>

definition strftime_Y :: "world \<Rightarrow> int \<Rightarrow> string" where
  "strftime_Y w y = (if 1000 \<le> y \<and> y \<le> 9999 then pad4 (nat y) else platform_year w y)"

text \<open>\<open>dt.strftime('%Y-%m-%d')\<close>; \<open>%m\<close> and \<open>%d\<close> are two digits each.\<close>

definition strftime_Ymd :: "world \<Rightarrow> datetime \<Rightarrow> string" where
  "strftime_Ymd w dt =
     strftime_Y w (year_of dt) @ ''-'' @ pad2 (nat (month_of dt))
     @ ''-'' @ pad2 (nat (day_of dt))"

section \<open>Configuration (\<open>src/config.py\<close>)\<close>

record Config =
  GOOGLE_API_KEY :: "string option"
  GOOGLE_MAPS_PLATFORM_API_KEY :: "string option"
  OPIK_API_KEY :: "string option"
  OPIK_WORKSPACE :: "string option"
  OPIK_PROJECT_NAME :: "string option"
  OPENWEATHER_API_KEY :: "string option"
  TIMEZONEDB_API_KEY :: "string option"
  AGENT_MODEL :: string
  AGENT_NAME :: string

text \<open>
  The class attributes are read once from the environment, a map from variable names
  to values: \<open>os.getenv(name)\<close> is \<open>None\<close> for an unset variable.
\<close>

definition load_config :: "(string \<rightharpoonup> string) \<Rightarrow> Config" where
  "load_config getenv =
     \<lparr> GOOGLE_API_KEY = getenv ''GOOGLE_API_KEY'',
       GOOGLE_MAPS_PLATFORM_API_KEY = getenv ''GOOGLE_MAPS_PLATFORM_API_KEY'',
       OPIK_API_KEY = getenv ''OPIK_API_KEY'',
       OPIK_WORKSPACE = getenv ''OPIK_WORKSPACE'',
       OPIK_PROJECT_NAME =
         (case getenv ''OPIK_PROJECT_NAME'' of
            None \<Rightarrow> Some ''weather-agent'' | Some v \<Rightarrow> Some v),
       OPENWEATHER_API_KEY = getenv ''OPENWEATHER_API_KEY'',
       TIMEZONEDB_API_KEY = getenv ''TIMEZONEDB_API_KEY'',
       AGENT_MODEL = ''gemini-2.0-flash'',
       AGENT_NAME = ''weather_time_city_agent'' \<rparr>"

text \<open>Python's truth value of an \<open>Optional[str]\<close>: \<open>None\<close> and \<open>""\<close> are false.\<close>

definition truthy :: "string option \<Rightarrow> bool" where
  "truthy v = (case v of None \<Rightarrow> False | Some s \<Rightarrow> s \<noteq> [])"

definition validate_config :: "Config \<Rightarrow> string list" where
  "validate_config cfg =
     (let missing = [];
          missing = (if \<not> truthy (GOOGLE_API_KEY cfg)
                     then missing @ [''GOOGLE_API_KEY''] else missing);
          missing = (if \<not> truthy (GOOGLE_MAPS_PLATFORM_API_KEY cfg)
                     then missing @ [''GOOGLE_MAPS_PLATFORM_API_KEY''] else missing);
          missing = (if \<not> truthy (OPIK_API_KEY cfg)
                     then missing @ [''OPIK_API_KEY''] else missing);
          missing = (if \<not> truthy (OPIK_WORKSPACE cfg)
                     then missing @ [''OPIK_WORKSPACE''] else missing)
      in missing)"

definition is_production_ready :: "Config \<Rightarrow> bool" where
  "is_production_ready cfg = (length (validate_config cfg) = 0)"

text \<open>\<open>check_configuration\<close> of \<open>app/app.py\<close>: the error text, or \<open>None\<close>.\<close>

definition check_configuration :: "Config \<Rightarrow> string option" where
  "check_configuration cfg =
     (let missing = validate_config cfg
      in if missing \<noteq> []
         then Some (''Missing required configuration: '' @ join_comma missing
                    @ ''. Please check your .env file.'')
         else None)"

text \<open>
  The status line of the sidebar (\<open>display_sidebar\<close>): \<open>st.error\<close> with the issue or
  \<open>st.success\<close>; the texts start with a warning sign and a check mark, in UTF-8.
\<close>

datatype widget = St_error string | St_success string

definition configuration_status :: "Config \<Rightarrow> widget" where
  "configuration_status cfg =
     (case check_configuration cfg of
        Some config_error \<Rightarrow>
          St_error ([CHR 0xE2, CHR 0x9A, CHR 0xA0, CHR 0xEF, CHR 0xB8, CHR 0x8F]
                    @ '' Configuration Issue: '' @ config_error)
      | None \<Rightarrow> St_success ([CHR 0xE2, CHR 0x9C, CHR 0x85] @ '' Configuration OK''))"

section \<open>Lookup results\<close>

text \<open>
  Both services return a dictionary with the key \<open>status\<close> and either \<open>report\<close> (and
  on some paths \<open>data\<close>) or \<open>error_message\<close>.
\<close>

definition has_key :: "pydict \<Rightarrow> string \<Rightarrow> bool" where
  "has_key r k = (map_of r k \<noteq> None)"

definition keys :: "pydict \<Rightarrow> string list" where
  "keys r = map fst r"

section \<open>The time service (\<open>src/time_service.py\<close>)\<close>

definition TIME_BASE_URL :: string where
  "TIME_BASE_URL = ''https://api.timezonedb.com/v2.1/get-time-zone''"

definition FALLBACK_TIMEZONES :: "(string \<times> string) list" where
  "FALLBACK_TIMEZONES =
     [(''newyork'', ''America/New_York''),
      (''london'', ''Europe/London''),
      (''tokyo'', ''Asia/Tokyo''),
      (''paris'', ''Europe/Paris''),
      (''sydney'', ''Australia/Sydney''),
      (''losangeles'', ''America/Los_Angeles''),
      (''chicago'', ''America/Chicago''),
      (''mumbai'', ''Asia/Kolkata''),
      (''beijing'', ''Asia/Shanghai''),
      (''moscow'', ''Europe/Moscow'')]"

text \<open>\<open>city.lower().replace(" ", "")\<close>\<close>

definition city_normalized :: "world \<Rightarrow> string \<Rightarrow> string" where
  "city_normalized w city = replace_space (lower w city)"

definition time_error :: "string \<Rightarrow> pydict" where
  "time_error city =
     [(''status'', JStr ''error''),
      (''error_message'',
         JStr (''Sorry, I don't have timezone information for '' @ quoted city @ ''.''))]"

definition optional_str :: "string option \<Rightarrow> json" where
  "optional_str v = (case v of None \<Rightarrow> JNull | Some s \<Rightarrow> JStr s)"

text \<open>
  \<open>_get_timezone_from_api\<close> builds the parameters of a lookup by position and returns
  \<open>None\<close> without sending anything.
\<close>

definition get_timezone_from_api :: "Config \<Rightarrow> string \<Rightarrow> pydict option" where
  "get_timezone_from_api cfg city =
     (let params = [(''key'', optional_str (TIMEZONEDB_API_KEY cfg)),
                    (''format'', JStr ''json''),
                    (''by'', JStr ''position''),
                    (''lat'', JInt 0),
                    (''lng'', JInt 0)]
      in None)"

text \<open>
  \<open>_get_fallback_time\<close>. An exception inside its \<open>try\<close> (the zone is not in the
  database) is logged and control reaches the final \<open>return\<close>.
\<close>

definition get_fallback_time :: "world \<Rightarrow> string \<Rightarrow> pydict" where
  "get_fallback_time w city =
     (case map_of FALLBACK_TIMEZONES (city_normalized w city) of
        Some timezone \<Rightarrow>
          (case ZoneInfo w timezone of
             Some tz \<Rightarrow>
               (let now = datetime_now w tz;
                    report = ''The current time in '' @ city @ '' is ''
                             @ strftime_HM now @ ''.''
                in [(''status'', JStr ''success''),
                    (''report'', JStr report),
                    (''data'', JObj [(''city'', JStr city),
                                     (''timezone'', JStr timezone),
                                     (''formatted_time'', JStr (strftime_HM now))])])
           | None \<Rightarrow> time_error city)
      | None \<Rightarrow> time_error city)"

text \<open>The parameters of the request by zone, and the request as sent.\<close>

definition time_params :: "Config \<Rightarrow> json \<Rightarrow> pydict" where
  "time_params cfg zone_name =
     [(''key'', optional_str (TIMEZONEDB_API_KEY cfg)),
      (''format'', JStr ''json''),
      (''by'', JStr ''zone''),
      (''zone'', zone_name)]"

type_synonym request = "string \<times> pydict \<times> nat"

text \<open>
  What follows the choice of the zone in \<open>get_current_time\<close>: the request, the test of
  the answer's \<open>status\<close>, the conversion of its \<open>timestamp\<close> and the long report.
\<close>

definition query_time :: "Config \<Rightarrow> world \<Rightarrow> string \<Rightarrow> json \<Rightarrow> exn + pydict" where
  "query_time cfg w city zone_name =
     andThen (http_get w TIME_BASE_URL (time_params cfg zone_name) 10) (\<lambda>data.
     andThen (dict_get data ''status'') (\<lambda>status.
       if status = JStr ''OK'' then
         andThen (subscript data ''timestamp'') (\<lambda>timestamp.
         andThen (fromtimestamp w timestamp) (\<lambda>dt.
           Inr [(''status'', JStr ''success''),
                (''report'',
                   JStr (''The current time in '' @ city @ '' ('' @ fmt w zone_name
                         @ '') is '' @ strftime_HM dt @ '' on '' @ strftime_Ymd w dt @ ''.'')),
                (''data'', JObj [(''city'', JStr city),
                                 (''timezone'', zone_name),
                                 (''timestamp'', timestamp),
                                 (''formatted_time'', JStr (strftime_HM dt)),
                                 (''formatted_date'', JStr (strftime_Ymd w dt))])]))
       else Inr (get_fallback_time w city)))"

text \<open>
  The body of the \<open>try\<close> of \<open>get_current_time\<close>, with the requests it sends. The zone
  comes from \<open>_get_timezone_from_api\<close> when that answers with status \<open>OK\<close>, from the
  table otherwise; a city in neither returns the error at once.
\<close>

definition get_current_time_try :: "Config \<Rightarrow> world \<Rightarrow> string \<Rightarrow> request list \<times> (exn + pydict)" where
  "get_current_time_try cfg w city =
     (if \<not> truthy (TIMEZONEDB_API_KEY cfg) then ([], Inr (get_fallback_time w city))
      else
        let key = city_normalized w city;
            timezone_data = get_timezone_from_api cfg city;
            from_table =
              (case map_of FALLBACK_TIMEZONES key of
                 Some zone \<Rightarrow>
                   ([(TIME_BASE_URL, time_params cfg (JStr zone), 10)],
                    query_time cfg w city (JStr zone))
               | None \<Rightarrow> ([], Inr (time_error city)))
        in case timezone_data of
             Some td \<Rightarrow>
               if td \<noteq> [] \<and> map_of td ''status'' = Some (JStr ''OK'') then
                 (case map_of td ''zoneName'' of
                    None \<Rightarrow> ([], Inl KeyError)
                  | Some zone_name \<Rightarrow>
                      ([(TIME_BASE_URL, time_params cfg zone_name, 10)],
                       query_time cfg w city zone_name))
               else from_table
           | None \<Rightarrow> from_table)"

text \<open>The \<open>except\<close> clauses of \<open>get_current_time\<close>; any other exception leaves it.\<close>

definition time_except :: "world \<Rightarrow> string \<Rightarrow> exn + pydict \<Rightarrow> exn + pydict" where
  "time_except w city r =
     (case r of
        Inr result \<Rightarrow> Inr result
      | Inl RequestException \<Rightarrow> Inr (get_fallback_time w city)
      | Inl KeyError \<Rightarrow> Inr (get_fallback_time w city)
      | Inl ValueError \<Rightarrow> Inr (get_fallback_time w city)
      | Inl e \<Rightarrow> Inl e)"

definition get_current_time_run :: "Config \<Rightarrow> world \<Rightarrow> string \<Rightarrow> request list \<times> (exn + pydict)" where
  "get_current_time_run cfg w city =
     (case get_current_time_try cfg w city of
        (sent, r) \<Rightarrow> (sent, time_except w city r))"

definition get_current_time :: "Config \<Rightarrow> world \<Rightarrow> string \<Rightarrow> exn + pydict" where
  "get_current_time cfg w city = snd (get_current_time_run cfg w city)"

definition requests_sent :: "Config \<Rightarrow> world \<Rightarrow> string \<Rightarrow> request list" where
  "requests_sent cfg w city = fst (get_current_time_run cfg w city)"

section \<open>The weather service (\<open>src/weather_service.py\<close>)\<close>

definition WEATHER_BASE_URL :: string where
  "WEATHER_BASE_URL = ''https://api.openweathermap.org/data/2.5/weather''"

text \<open>
  The unit of the reports is written in the source as the three bytes \<open>EC A7 B8\<close>
  (the character U+C9F8) before the letter F.
\<close>

definition unit_F :: string where
  "unit_F = [CHR 0xEC, CHR 0xA7, CHR 0xB8] @ ''F''"

definition mock_weather :: "(string \<times> pydict) list" where
  "mock_weather =
     [(''newyork'',
         [(''status'', JStr ''success''),
          (''report'', JStr (''The weather in New York is sunny with a temperature of 45''
                             @ unit_F @ ''.''))]),
      (''london'',
         [(''status'', JStr ''success''),
          (''report'', JStr (''It's cloudy in London with a temperature of 55''
                             @ unit_F @ ''.''))]),
      (''tokyo'',
         [(''status'', JStr ''success''),
          (''report'', JStr (''Tokyo is experiencing light rain and a temperature of 72''
                             @ unit_F @ ''.''))])]"

definition get_mock_weather :: "world \<Rightarrow> string \<Rightarrow> pydict" where
  "get_mock_weather w city =
     (case map_of mock_weather (city_normalized w city) of
        Some result \<Rightarrow> result
      | None \<Rightarrow>
          [(''status'', JStr ''error''),
           (''error_message'',
              JStr (''Sorry, I don't have weather information for '' @ quoted city @ ''.''))])"

definition weather_params :: "Config \<Rightarrow> string \<Rightarrow> pydict" where
  "weather_params cfg city =
     [(''q'', JStr city),
      (''appid'', optional_str (OPENWEATHER_API_KEY cfg)),
      (''units'', JStr ''imperial'')]"

text \<open>
  The body of the \<open>try\<close> of \<open>get_weather\<close>; the entries of \<open>weather_info\<close> are
  evaluated in the order they are written.
\<close>

definition get_weather_try :: "Config \<Rightarrow> world \<Rightarrow> string \<Rightarrow> exn + pydict" where
  "get_weather_try cfg w city =
     (if \<not> truthy (OPENWEATHER_API_KEY cfg) then Inr (get_mock_weather w city)
      else
        andThen (http_get w WEATHER_BASE_URL (weather_params cfg city) 10) (\<lambda>data.
        andThen (subscript data ''name'') (\<lambda>name.
        andThen (andThen (subscript data ''sys'') (\<lambda>sys. subscript sys ''country'')) (\<lambda>country.
        andThen (andThen (subscript data ''main'') (\<lambda>m. subscript m ''temp'')) (\<lambda>temperature.
        andThen (andThen (andThen (andThen (subscript data ''weather'') subscript0)
                   (\<lambda>w0. subscript w0 ''description'')) (capitalize_method w)) (\<lambda>description.
        andThen (andThen (subscript data ''main'') (\<lambda>m. subscript m ''humidity'')) (\<lambda>humidity.
        andThen (andThen (subscript data ''wind'') (\<lambda>wd. subscript wd ''speed'')) (\<lambda>wind_speed.
        andThen (andThen (subscript data ''main'') (\<lambda>m. subscript m ''pressure'')) (\<lambda>pressure.
          let weather_info =
                [(''status'', JStr ''success''),
                 (''city'', name),
                 (''country'', country),
                 (''temperature'', temperature),
                 (''description'', JStr description),
                 (''humidity'', humidity),
                 (''wind_speed'', wind_speed),
                 (''pressure'', pressure)];
              report =
                ''The weather in '' @ fmt w name @ '', '' @ fmt w country @ '' is ''
                @ description @ '' with a temperature of '' @ fmt w temperature @ unit_F
                @ ''. '' @ ''Humidity: '' @ fmt w humidity @ ''%, Wind: '' @ fmt w wind_speed
                @ '' mph, '' @ ''Pressure: '' @ fmt w pressure @ '' hPa.''
          in Inr [(''status'', JStr ''success''),
                  (''report'', JStr report),
                  (''data'', JObj weather_info)])))))))))"

definition weather_except :: "string \<Rightarrow> exn + pydict \<Rightarrow> exn + pydict" where
  "weather_except city r =
     (case r of
        Inr result \<Rightarrow> Inr result
      | Inl RequestException \<Rightarrow>
          Inr [(''status'', JStr ''error''),
               (''error_message'',
                  JStr (''Unable to fetch weather data for '' @ quoted city
                        @ ''. Please check the city name and try again.''))]
      | Inl KeyError \<Rightarrow>
          Inr [(''status'', JStr ''error''),
               (''error_message'',
                  JStr (''Received invalid weather data for '' @ quoted city @ ''.''))]
      | Inl ValueError \<Rightarrow>
          Inr [(''status'', JStr ''error''),
               (''error_message'',
                  JStr (''Received invalid weather data for '' @ quoted city @ ''.''))]
      | Inl e \<Rightarrow> Inl e)"

definition get_weather :: "Config \<Rightarrow> world \<Rightarrow> string \<Rightarrow> exn + pydict" where
  "get_weather cfg w city = weather_except city (get_weather_try cfg w city)"

section \<open>Properties of results\<close>

definition is_digit :: "char \<Rightarrow> bool" where
  "is_digit c = (48 \<le> (of_char c :: nat) \<and> (of_char c :: nat) \<le> 57)"

definition digit_val :: "char \<Rightarrow> nat" where
  "digit_val c = (of_char c :: nat) - 48"

text \<open>A time of day written \<open>HH:MM\<close>: two digits below 24, a colon, two digits below 60.\<close>

definition is_HHMM :: "string \<Rightarrow> bool" where
  "is_HHMM s =
     (case s of
        [h1, h2, c, m1, m2] \<Rightarrow>
          is_digit h1 \<and> is_digit h2 \<and> c = CHR '':'' \<and> is_digit m1 \<and> is_digit m2
          \<and> 10 * digit_val h1 + digit_val h2 < 24
          \<and> 10 * digit_val m1 + digit_val m2 < 60
      | _ \<Rightarrow> False)"


section \<open>Sample configurations and worlds\<close>

definition no_keys :: Config where
  "no_keys = load_config Map.empty"

definition live_keys :: Config where
  "live_keys = load_config [''OPENWEATHER_API_KEY'' \<mapsto> ''w-key'',
                            ''TIMEZONEDB_API_KEY'' \<mapsto> ''t-key'']"

definition agent_keys :: "string \<rightharpoonup> string" where
  "agent_keys = [''GOOGLE_API_KEY'' \<mapsto> ''g'', ''GOOGLE_MAPS_PLATFORM_API_KEY'' \<mapsto> ''m'',
                 ''OPIK_API_KEY'' \<mapsto> ''o'', ''OPIK_WORKSPACE'' \<mapsto> ''ws'']"

text \<open>
  The year as glibc writes it for \<open>%Y\<close>: in decimal, without padding.
\<close>

definition glibc_year :: "int \<Rightarrow> string" where
  "glibc_year y =
     (let n = nat y
      in if n < 10 then [digit_char n]
         else if n < 100 then pad2 n
         else if n < 1000 then digit_char (n div 100) # pad2 (n mod 100)
         else pad4 n)"

text \<open>
  A Linux machine on UTC whose zone database knows London and Tokyo, at 2023-11-14
  22:13:20 UTC, with no network. It converts an integer timestamp within the years 1
  to 9999 and refuses another integer with \<open>ValueError\<close>, another value with
  \<open>TypeError\<close>.
\<close>

definition offline_world :: world where
  "offline_world =
     \<lparr> unicode_lower = (\<lambda>s. s),
       unicode_capitalize = (\<lambda>s. s),
       py_str = (\<lambda>v. ''?''),
       ZoneInfo = (\<lambda>z. if z = ''Europe/London'' then Some (\<lambda>t. 0)
                        else if z = ''Asia/Tokyo'' then Some (\<lambda>t. 32400)
                        else None),
       clock = 1700000000,
       fromtimestamp =
         (\<lambda>v. case v of
                JInt n \<Rightarrow> if - 62135596800 \<le> n \<and> n < 253402300800 then Inr n
                          else Inl ValueError
              | _ \<Rightarrow> Inl TypeError),
       platform_year = glibc_year,
       http_get = (\<lambda>url params timeout. Inl RequestException) \<rparr>"

text \<open>The same machine an hour and five minutes later.\<close>

definition later_world :: world where
  "later_world = offline_world \<lparr> clock := 1700003900 \<rparr>"

text \<open>The same machine without a time-zone database.\<close>

definition world_without_tzdata :: world where
  "world_without_tzdata = offline_world \<lparr> ZoneInfo := (\<lambda>z. None) \<rparr>"

text \<open>The time endpoint answers \<open>{"status": "OK", "timestamp": 1700000000}\<close>.\<close>

definition world_time_ok :: world where
  "world_time_ok =
     offline_world \<lparr> http_get := (\<lambda>url params timeout.
        Inr (JObj [(''status'', JStr ''OK''), (''timestamp'', JInt 1700000000)])) \<rparr>"

text \<open>
  The time endpoint answers \<open>{"status": "OK", "timestamp": -31000000000}\<close>, an instant
  of the year 987.
\<close>

definition world_time_year_987 :: world where
  "world_time_year_987 =
     offline_world \<lparr> http_get := (\<lambda>url params timeout.
        Inr (JObj [(''status'', JStr ''OK''), (''timestamp'', JInt (- 31000000000))])) \<rparr>"

text \<open>The time endpoint answers \<open>{"status": "FAILED"}\<close>.\<close>

definition world_time_failed :: world where
  "world_time_failed =
     offline_world \<lparr> http_get := (\<lambda>url params timeout.
        Inr (JObj [(''status'', JStr ''FAILED'')])) \<rparr>"

text \<open>The endpoint answers with the JSON array \<open>[]\<close>.\<close>

definition world_array_body :: world where
  "world_array_body = offline_world \<lparr> http_get := (\<lambda>url params timeout. Inr (JArr [])) \<rparr>"

text \<open>
  The weather endpoint answers with every field but an empty \<open>weather\<close> list:
  \<open>{"name": "London", "sys": {"country": "GB"}, "main": {"temp": 55, "humidity": 80,
  "pressure": 1012}, "weather": [], "wind": {"speed": 4}}\<close>.
\<close>

definition world_empty_weather :: world where
  "world_empty_weather =
     offline_world \<lparr> http_get := (\<lambda>url params timeout.
        Inr (JObj [(''name'', JStr ''London''),
                   (''sys'', JObj [(''country'', JStr ''GB'')]),
                   (''main'', JObj [(''temp'', JInt 55), (''humidity'', JInt 80),
                                    (''pressure'', JInt 1012)]),
                   (''weather'', JArr []),
                   (''wind'', JObj [(''speed'', JInt 4)])])) \<rparr>"

text \<open>The weather endpoint answers \<open>{"cod": 200}\<close>, with none of the fields.\<close>

definition world_missing_fields :: world where
  "world_missing_fields =
     offline_world \<lparr> http_get := (\<lambda>url params timeout. Inr (JObj [(''cod'', JInt 200)])) \<rparr>"

section \<open>Lemmas on the Python operations and the time of day\<close>

lemma andThen_Inl [simp]: "andThen (Inl e) f = Inl e"
  by (simp add: andThen_def)

lemma andThen_Inr [simp]: "andThen (Inr x) f = f x"
  by (simp add: andThen_def)


lemma digit_char_is_digit: "n < 10 \<Longrightarrow> is_digit (digit_char n)"
  by (simp add: is_digit_def digit_char_def)

lemma digit_val_digit_char: "n < 10 \<Longrightarrow> digit_val (digit_char n) = n"
  by (simp add: digit_val_def digit_char_def)

lemma strftime_HM_shape: "is_HHMM (strftime_HM dt)"
proof -
  define h where "h = nat (dt div 3600 mod 24)"
  define m where "m = nat (dt div 60 mod 60)"
  have h: "h < 24" and m: "m < 60"
    by (simp_all add: h_def m_def nat_less_iff)
  then have d: "h div 10 < 10" "h mod 10 < 10" "m div 10 < 10" "m mod 10 < 10"
    by simp_all
  have "strftime_HM dt = [digit_char (h div 10), digit_char (h mod 10), CHR '':'',
                           digit_char (m div 10), digit_char (m mod 10)]"
    by (simp add: strftime_HM_def pad2_def h_def m_def)
  with h m d show ?thesis
    by (simp add: is_HHMM_def digit_char_is_digit digit_val_digit_char)
qed











section \<open>Lemmas on the two services\<close>

lemma get_current_time_no_key:
  "\<not> truthy (TIMEZONEDB_API_KEY cfg) \<Longrightarrow>
     get_current_time_run cfg w city = ([], Inr (get_fallback_time w city))"
  by (simp add: get_current_time_run_def get_current_time_try_def time_except_def)

lemma get_current_time_table:
  "truthy (TIMEZONEDB_API_KEY cfg) \<Longrightarrow>
   map_of FALLBACK_TIMEZONES (city_normalized w city) = Some zone \<Longrightarrow>
     get_current_time_run cfg w city =
       ([(TIME_BASE_URL, time_params cfg (JStr zone), 10)],
        time_except w city (query_time cfg w city (JStr zone)))"
  by (simp add: get_current_time_run_def get_current_time_try_def get_timezone_from_api_def)

lemma get_fallback_time_known:
  "map_of FALLBACK_TIMEZONES (city_normalized w city) = Some zone \<Longrightarrow>
   ZoneInfo w zone = Some tz \<Longrightarrow>
     get_fallback_time w city =
       [(''status'', JStr ''success''),
        (''report'', JStr (''The current time in '' @ city @ '' is ''
                           @ strftime_HM (datetime_now w tz) @ ''.'')),
        (''data'', JObj [(''city'', JStr city), (''timezone'', JStr zone),
                         (''formatted_time'', JStr (strftime_HM (datetime_now w tz)))])]"
  by (simp add: get_fallback_time_def Let_def)

lemma get_fallback_time_unknown:
  "map_of FALLBACK_TIMEZONES (city_normalized w city) = None \<Longrightarrow>
     get_fallback_time w city = time_error city"
  by (simp add: get_fallback_time_def)

lemma get_fallback_time_no_zone:
  "map_of FALLBACK_TIMEZONES (city_normalized w city) = Some zone \<Longrightarrow>
   ZoneInfo w zone = None \<Longrightarrow> get_fallback_time w city = time_error city"
  by (simp add: get_fallback_time_def)

lemma query_time_success:
  "http_get w TIME_BASE_URL (time_params cfg z) 10 = Inr (JObj answer) \<Longrightarrow>
   map_of answer ''status'' = Some (JStr ''OK'') \<Longrightarrow>
   map_of answer ''timestamp'' = Some ts \<Longrightarrow>
   fromtimestamp w ts = Inr dt \<Longrightarrow>
     query_time cfg w city z =
       Inr [(''status'', JStr ''success''),
            (''report'',
               JStr (''The current time in '' @ city @ '' ('' @ fmt w z
                     @ '') is '' @ strftime_HM dt @ '' on '' @ strftime_Ymd w dt @ ''.'')),
            (''data'', JObj [(''city'', JStr city),
                             (''timezone'', z),
                             (''timestamp'', ts),
                             (''formatted_time'', JStr (strftime_HM dt)),
                             (''formatted_date'', JStr (strftime_Ymd w dt))])]"
  by (simp add: query_time_def dict_get_def subscript_def)

lemma query_time_raises:
  "http_get w TIME_BASE_URL (time_params cfg z) 10 = Inl e \<Longrightarrow>
     query_time cfg w city z = Inl e"
  by (simp add: query_time_def)

lemma query_time_not_OK:
  "http_get w TIME_BASE_URL (time_params cfg z) 10 = Inr (JObj answer) \<Longrightarrow>
   map_of answer ''status'' \<noteq> Some (JStr ''OK'') \<Longrightarrow>
     query_time cfg w city z = Inr (get_fallback_time w city)"
  by (auto simp: query_time_def dict_get_def split: option.splits)

lemma query_time_no_timestamp:
  "http_get w TIME_BASE_URL (time_params cfg z) 10 = Inr (JObj answer) \<Longrightarrow>
   map_of answer ''status'' = Some (JStr ''OK'') \<Longrightarrow>
   map_of answer ''timestamp'' = None \<Longrightarrow>
     query_time cfg w city z = Inl KeyError"
  by (simp add: query_time_def dict_get_def subscript_def)

lemma query_time_bad_timestamp:
  "http_get w TIME_BASE_URL (time_params cfg z) 10 = Inr (JObj answer) \<Longrightarrow>
   map_of answer ''status'' = Some (JStr ''OK'') \<Longrightarrow>
   map_of answer ''timestamp'' = Some ts \<Longrightarrow>
   fromtimestamp w ts = Inl e \<Longrightarrow>
     query_time cfg w city z = Inl e"
  by (simp add: query_time_def dict_get_def subscript_def)

lemma query_time_not_a_dict:
  "http_get w TIME_BASE_URL (time_params cfg z) 10 = Inr data \<Longrightarrow>
   (\<And>kvs. data \<noteq> JObj kvs) \<Longrightarrow>
     query_time cfg w city z = Inl AttributeError"
  by (cases data) (auto simp: query_time_def dict_get_def)

lemma time_except_caught:
  "e = RequestException \<or> e = KeyError \<or> e = ValueError \<Longrightarrow>
     time_except w city (Inl e) = Inr (get_fallback_time w city)"
  by (auto simp: time_except_def)

lemma time_except_not_caught:
  "e \<noteq> RequestException \<Longrightarrow> e \<noteq> KeyError \<Longrightarrow> e \<noteq> ValueError \<Longrightarrow>
     time_except w city (Inl e) = Inl e"
  by (cases e) (simp_all add: time_except_def)

lemma time_except_Inr: "time_except w city (Inr r) = Inr r"
  by (simp add: time_except_def)

lemma city_normalized_cong:
  "unicode_lower w2 = unicode_lower w1 \<Longrightarrow> city_normalized w2 city = city_normalized w1 city"
  by (simp add: city_normalized_def lower_def)

lemma get_weather_mock_mode:
  "\<not> truthy (OPENWEATHER_API_KEY cfg) \<Longrightarrow>
     get_weather cfg w city = Inr (get_mock_weather w city)"
  by (simp add: get_weather_def get_weather_try_def weather_except_def)

lemma get_weather_request_error:
  "truthy (OPENWEATHER_API_KEY cfg) \<Longrightarrow>
   http_get w WEATHER_BASE_URL (weather_params cfg city) 10 = Inl RequestException \<Longrightarrow>
     get_weather cfg w city =
       Inr [(''status'', JStr ''error''),
            (''error_message'',
               JStr (''Unable to fetch weather data for '' @ [CHR 0x27] @ city @ [CHR 0x27]
                     @ ''. Please check the city name and try again.''))]"
  by (simp add: get_weather_def get_weather_try_def weather_except_def quoted_def)

lemma get_weather_parse_error:
  "get_weather_try cfg w city = Inl e \<Longrightarrow> e = KeyError \<or> e = ValueError \<Longrightarrow>
     get_weather cfg w city =
       Inr [(''status'', JStr ''error''),
            (''error_message'',
               JStr (''Received invalid weather data for '' @ [CHR 0x27] @ city @ [CHR 0x27]
                     @ ''.''))]"
  by (auto simp: get_weather_def weather_except_def quoted_def)

lemma get_weather_not_caught:
  "get_weather_try cfg w city = Inl e \<Longrightarrow>
   e \<noteq> RequestException \<Longrightarrow> e \<noteq> KeyError \<Longrightarrow> e \<noteq> ValueError \<Longrightarrow>
     get_weather cfg w city = Inl e"
  by (cases e) (simp_all add: get_weather_def weather_except_def)

lemma get_mock_weather_cases:
  "get_mock_weather w city =
     (if city_normalized w city = ''newyork'' then
        [(''status'', JStr ''success''),
         (''report'', JStr (''The weather in New York is sunny with a temperature of 45''
                            @ unit_F @ ''.''))]
      else if city_normalized w city = ''london'' then
        [(''status'', JStr ''success''),
         (''report'', JStr (''It's cloudy in London with a temperature of 55''
                            @ unit_F @ ''.''))]
      else if city_normalized w city = ''tokyo'' then
        [(''status'', JStr ''success''),
         (''report'', JStr (''Tokyo is experiencing light rain and a temperature of 72''
                            @ unit_F @ ''.''))]
      else
        [(''status'', JStr ''error''),
         (''error_message'',
            JStr (''Sorry, I don't have weather information for '' @ [CHR 0x27] @ city
                  @ [CHR 0x27] @ ''.''))])"
  by (simp add: get_mock_weather_def mock_weather_def quoted_def)

section \<open>Sample evaluations\<close>

lemma sample_truthy_time_key: "truthy (TIMEZONEDB_API_KEY live_keys)"
  by code_simp

lemma sample_truthy_weather_key: "truthy (OPENWEATHER_API_KEY live_keys)"
  by code_simp

lemma sample_no_time_key: "\<not> truthy (TIMEZONEDB_API_KEY no_keys)"
  by code_simp

lemma sample_no_weather_key: "\<not> truthy (OPENWEATHER_API_KEY no_keys)"
  by code_simp

lemma sample_ascii_city:
  "is_ascii city \<Longrightarrow> city_normalized w city = replace_space (map ascii_lower city)"
  by (simp add: city_normalized_def lower_def)

lemma sample_London: "city_normalized w ''London'' = ''london''"
  by (rule trans [OF sample_ascii_city]) code_simp+

lemma sample_Tokyo: "city_normalized w ''Tokyo'' = ''tokyo''"
  by (rule trans [OF sample_ascii_city]) code_simp+

lemma sample_New_York: "city_normalized w ''New York'' = ''newyork''"
  by (rule trans [OF sample_ascii_city]) code_simp+

lemma sample_Nowhereville: "city_normalized w ''Nowhereville'' = ''nowhereville''"
  by (rule trans [OF sample_ascii_city]) code_simp+

lemma sample_zone_London:
  "map_of FALLBACK_TIMEZONES (city_normalized w ''London'') = Some ''Europe/London''"
  by (simp add: sample_London FALLBACK_TIMEZONES_def)

lemma sample_zone_Tokyo:
  "map_of FALLBACK_TIMEZONES (city_normalized w ''Tokyo'') = Some ''Asia/Tokyo''"
  by (simp add: sample_Tokyo FALLBACK_TIMEZONES_def)

lemma sample_weather_request_error:
  "get_weather live_keys offline_world ''London'' =
     Inr [(''status'', JStr ''error''),
          (''error_message'',
             JStr (''Unable to fetch weather data for '' @ [CHR 0x27] @ ''London'' @ [CHR 0x27]
                   @ ''. Please check the city name and try again.''))]"
  by (rule get_weather_request_error [OF sample_truthy_weather_key])
     (simp add: offline_world_def)

lemma sample_weather_missing_fields:
  "get_weather live_keys world_missing_fields ''London'' =
     Inr [(''status'', JStr ''error''),
          (''error_message'',
             JStr (''Received invalid weather data for '' @ [CHR 0x27] @ ''London'' @ [CHR 0x27]
                   @ ''.''))]"
proof -
  have "get_weather_try live_keys world_missing_fields ''London'' = Inl KeyError"
    by (simp add: get_weather_try_def sample_truthy_weather_key world_missing_fields_def
        subscript_def)
  then show ?thesis
    by (rule get_weather_parse_error) simp
qed

lemma sample_HM: "strftime_HM 1700000000 = ''22:13''"
  by code_simp

lemma strftime_Ymd_four_digits:
  "1000 \<le> year_of dt \<Longrightarrow> year_of dt \<le> 9999 \<Longrightarrow>
     strftime_Ymd w dt =
       pad4 (nat (year_of dt)) @ ''-'' @ pad2 (nat (month_of dt)) @ ''-'' @ pad2 (nat (day_of dt))"
  by (simp add: strftime_Ymd_def strftime_Y_def)

lemma pad4_digits: "n \<le> 9999 \<Longrightarrow> list_all is_digit (pad4 n)"
  by (simp add: pad4_def digit_char_is_digit)

lemma sample_date_2023:
  "year_of 1700000000 = 2023 \<and> month_of 1700000000 = 11 \<and> day_of 1700000000 = 14"
  by code_simp

lemma sample_Ymd: "strftime_Ymd w 1700000000 = ''2023-11-14''"
proof -
  have "pad4 2023 @ ''-'' @ pad2 11 @ ''-'' @ pad2 14 = ''2023-11-14''"
    by code_simp
  then show ?thesis
    by (simp add: strftime_Ymd_def strftime_Y_def sample_date_2023)
qed

lemma sample_date_987:
  "year_of (- 31000000000) = 987 \<and> month_of (- 31000000000) = 8
   \<and> day_of (- 31000000000) = 25"
  by code_simp

lemma sample_Ymd_987:
  "platform_year w = glibc_year \<Longrightarrow> strftime_Ymd w (- 31000000000) = ''987-08-25''"
proof -
  have "glibc_year 987 @ ''-'' @ pad2 8 @ ''-'' @ pad2 25 = ''987-08-25''"
    by code_simp
  then show "platform_year w = glibc_year \<Longrightarrow> ?thesis"
    by (simp add: strftime_Ymd_def strftime_Y_def sample_date_987)
qed

lemma sample_HM_987: "strftime_HM (- 31000000000) = ''16:53''"
  by code_simp

section \<open>Claims\<close>

text \<open>
  C1, as amended. For every city whose normalized key is in the fallback table, with a
  live-time credential configured: the geocoding step yields no zone, the zone is taken
  from the table and exactly one request is sent to the time-by-zone endpoint, with that
  zone. When the answer is an object with status \<open>OK\<close> and a timestamp that converts to
  a date, the result is the long report "The current time in {city} ({zone}) is HH:MM on
  {date}." with its data, where {date} is what \<open>strftime('%Y-%m-%d')\<close> gives: the year in
  four digits, the month and the day for a year from 1000 to 9999, and for an earlier
  year the year as the platform writes it (glibc writes 987, not 0987). When the request
  fails with a request error, or the answer is an object whose status is not \<open>OK\<close>, or
  whose timestamp is missing or is refused with a \<open>ValueError\<close>, the result is that of
  the fallback step, which is the short report "The current time in {city} is HH:MM."
  when the zone database has the zone.
\<close>

theorem live_key_table_city_queries_time_endpoint:
  assumes "truthy (TIMEZONEDB_API_KEY cfg)"
      and "map_of FALLBACK_TIMEZONES (city_normalized w city) = Some zone"
  shows "get_timezone_from_api cfg city = None
       \<and> requests_sent cfg w city = [(TIME_BASE_URL, time_params cfg (JStr zone), 10)]
       \<and> (http_get w TIME_BASE_URL (time_params cfg (JStr zone)) 10 = Inr (JObj answer)
            \<and> map_of answer ''status'' = Some (JStr ''OK'')
            \<and> map_of answer ''timestamp'' = Some ts
            \<and> fromtimestamp w ts = Inr dt
          \<longrightarrow> is_HHMM (strftime_HM dt)
              \<and> get_current_time cfg w city =
                  Inr [(''status'', JStr ''success''),
                       (''report'',
                          JStr (''The current time in '' @ city @ '' ('' @ zone @ '') is ''
                                @ strftime_HM dt @ '' on '' @ strftime_Ymd w dt @ ''.'')),
                       (''data'', JObj [(''city'', JStr city),
                                        (''timezone'', JStr zone),
                                        (''timestamp'', ts),
                                        (''formatted_time'', JStr (strftime_HM dt)),
                                        (''formatted_date'', JStr (strftime_Ymd w dt))])]
              \<and> (1000 \<le> year_of dt \<and> year_of dt \<le> 9999
                 \<longrightarrow> strftime_Ymd w dt =
                       pad4 (nat (year_of dt)) @ ''-'' @ pad2 (nat (month_of dt))
                       @ ''-'' @ pad2 (nat (day_of dt))
                     \<and> list_all is_digit (pad4 (nat (year_of dt)))))
       \<and> (http_get w TIME_BASE_URL (time_params cfg (JStr zone)) 10 = Inl RequestException
            \<or> http_get w TIME_BASE_URL (time_params cfg (JStr zone)) 10 = Inr (JObj answer)
               \<and> (map_of answer ''status'' \<noteq> Some (JStr ''OK'')
                    \<or> map_of answer ''timestamp'' = None
                    \<or> map_of answer ''timestamp'' = Some ts \<and> fromtimestamp w ts = Inl ValueError)
          \<longrightarrow> get_current_time cfg w city = Inr (get_fallback_time w city))
       \<and> (ZoneInfo w zone = Some tz
          \<longrightarrow> is_HHMM (strftime_HM (datetime_now w tz))
              \<and> map_of (get_fallback_time w city) ''status'' = Some (JStr ''success'')
              \<and> map_of (get_fallback_time w city) ''report'' =
                  Some (JStr (''The current time in '' @ city @ '' is ''
                              @ strftime_HM (datetime_now w tz) @ ''.'')))"
proof -
  let ?answer = "http_get w TIME_BASE_URL (time_params cfg (JStr zone)) 10"
  let ?q = "query_time cfg w city (JStr zone)"
  have run: "get_current_time_run cfg w city =
      ([(TIME_BASE_URL, time_params cfg (JStr zone), 10)], time_except w city ?q)"
    using assms by (rule get_current_time_table)
  have geo: "get_timezone_from_api cfg city = None"
    by (simp add: get_timezone_from_api_def)
  have sent: "requests_sent cfg w city = [(TIME_BASE_URL, time_params cfg (JStr zone), 10)]"
    by (simp add: requests_sent_def run)
  have res: "get_current_time cfg w city = time_except w city ?q"
    by (simp add: get_current_time_def run)
  have live: "get_current_time cfg w city =
                  Inr [(''status'', JStr ''success''),
                       (''report'',
                          JStr (''The current time in '' @ city @ '' ('' @ zone @ '') is ''
                                @ strftime_HM dt @ '' on '' @ strftime_Ymd w dt @ ''.'')),
                       (''data'', JObj [(''city'', JStr city),
                                        (''timezone'', JStr zone),
                                        (''timestamp'', ts),
                                        (''formatted_time'', JStr (strftime_HM dt)),
                                        (''formatted_date'', JStr (strftime_Ymd w dt))])]"
    if "?answer = Inr (JObj answer)" "map_of answer ''status'' = Some (JStr ''OK'')"
       "map_of answer ''timestamp'' = Some ts" "fromtimestamp w ts = Inr dt"
    using query_time_success [OF that, of city] by (simp add: res time_except_Inr fmt_def)
  have fb1: "get_current_time cfg w city = Inr (get_fallback_time w city)"
    if "?answer = Inl RequestException"
    using query_time_raises [OF that, of city] by (simp add: res time_except_caught)
  have fb2: "get_current_time cfg w city = Inr (get_fallback_time w city)"
    if "?answer = Inr (JObj answer)" "map_of answer ''status'' \<noteq> Some (JStr ''OK'')"
    using query_time_not_OK [OF that, of city] by (simp add: res time_except_Inr)
  have fb3: "get_current_time cfg w city = Inr (get_fallback_time w city)"
    if "?answer = Inr (JObj answer)" "map_of answer ''status'' = Some (JStr ''OK'')"
       "map_of answer ''timestamp'' = None"
    using query_time_no_timestamp [OF that, of city] by (simp add: res time_except_caught)
  have fb4: "get_current_time cfg w city = Inr (get_fallback_time w city)"
    if "?answer = Inr (JObj answer)" "map_of answer ''status'' = Some (JStr ''OK'')"
       "map_of answer ''timestamp'' = Some ts" "fromtimestamp w ts = Inl ValueError"
    using query_time_bad_timestamp [OF that, of city] by (simp add: res time_except_caught)
  have short: "map_of (get_fallback_time w city) ''status'' = Some (JStr ''success'')
       \<and> map_of (get_fallback_time w city) ''report'' =
                  Some (JStr (''The current time in '' @ city @ '' is ''
                              @ strftime_HM (datetime_now w tz) @ ''.''))"
    if "ZoneInfo w zone = Some tz"
    using get_fallback_time_known [OF assms(2) that] by simp
  from fb1 fb2 fb3 fb4
  have fb: "?answer = Inl RequestException
            \<or> ?answer = Inr (JObj answer)
               \<and> (map_of answer ''status'' \<noteq> Some (JStr ''OK'')
                    \<or> map_of answer ''timestamp'' = None
                    \<or> map_of answer ''timestamp'' = Some ts \<and> fromtimestamp w ts = Inl ValueError)
          \<longrightarrow> get_current_time cfg w city = Inr (get_fallback_time w city)"
    by blast
  have date: "strftime_Ymd w dt =
                       pad4 (nat (year_of dt)) @ ''-'' @ pad2 (nat (month_of dt))
                       @ ''-'' @ pad2 (nat (day_of dt))
                     \<and> list_all is_digit (pad4 (nat (year_of dt)))"
    if "1000 \<le> year_of dt" "year_of dt \<le> 9999"
    using that by (simp add: strftime_Ymd_four_digits pad4_digits)
  from geo sent live fb short date strftime_HM_shape show ?thesis
    by blast
qed

text \<open>
  The theorem at London, with the endpoint answering \<open>OK\<close> with an instant of 2023 and
  with one of the year 987 (on a glibc machine), and with the endpoint answering
  \<open>FAILED\<close>.
\<close>

theorem live_key_table_city_witness:
  "truthy (TIMEZONEDB_API_KEY live_keys)
   \<and> map_of FALLBACK_TIMEZONES (city_normalized world_time_ok ''London'')
       = Some ''Europe/London''
   \<and> requests_sent live_keys world_time_ok ''London''
       = [(TIME_BASE_URL, time_params live_keys (JStr ''Europe/London''), 10)]
   \<and> get_current_time live_keys world_time_ok ''London'' =
       Inr [(''status'', JStr ''success''),
            (''report'',
               JStr ''The current time in London (Europe/London) is 22:13 on 2023-11-14.''),
            (''data'', JObj [(''city'', JStr ''London''),
                             (''timezone'', JStr ''Europe/London''),
                             (''timestamp'', JInt 1700000000),
                             (''formatted_time'', JStr ''22:13''),
                             (''formatted_date'', JStr ''2023-11-14'')])]
   \<and> get_current_time live_keys world_time_year_987 ''London'' =
       Inr [(''status'', JStr ''success''),
            (''report'',
               JStr ''The current time in London (Europe/London) is 16:53 on 987-08-25.''),
            (''data'', JObj [(''city'', JStr ''London''),
                             (''timezone'', JStr ''Europe/London''),
                             (''timestamp'', JInt (- 31000000000)),
                             (''formatted_time'', JStr ''16:53''),
                             (''formatted_date'', JStr ''987-08-25'')])]
   \<and> get_current_time live_keys world_time_failed ''London''
       = Inr (get_fallback_time world_time_failed ''London'')
   \<and> map_of (get_fallback_time world_time_failed ''London'') ''report''
       = Some (JStr ''The current time in London is 22:13.'')"
proof -
  let ?ok = "[(''status'', JStr ''OK''), (''timestamp'', JInt 1700000000)]"
  let ?old = "[(''status'', JStr ''OK''), (''timestamp'', JInt (- 31000000000))]"
  have c: "http_get world_time_year_987 TIME_BASE_URL
             (time_params live_keys (JStr ''Europe/London'')) 10 = Inr (JObj ?old)"
    by (simp add: world_time_year_987_def)
  have g: "fromtimestamp world_time_year_987 (JInt (- 31000000000)) = Inr (- 31000000000)"
    by (simp add: world_time_year_987_def offline_world_def)
  have y: "strftime_Ymd world_time_year_987 (- 31000000000) = ''987-08-25''"
    by (rule sample_Ymd_987) (simp add: world_time_year_987_def offline_world_def)
  note old = live_key_table_city_queries_time_endpoint
    [OF sample_truthy_time_key sample_zone_London,
      of world_time_year_987 ?old "JInt (- 31000000000)" "- 31000000000" "\<lambda>t. 0"]
  from old c g have 5: "get_current_time live_keys world_time_year_987 ''London'' =
       Inr [(''status'', JStr ''success''),
            (''report'',
               JStr ''The current time in London (Europe/London) is 16:53 on 987-08-25.''),
            (''data'', JObj [(''city'', JStr ''London''),
                             (''timezone'', JStr ''Europe/London''),
                             (''timestamp'', JInt (- 31000000000)),
                             (''formatted_time'', JStr ''16:53''),
                             (''formatted_date'', JStr ''987-08-25'')])]"
    by (simp add: sample_HM_987 y)
  let ?failed = "[(''status'', JStr ''FAILED'')]"
  have a: "http_get world_time_ok TIME_BASE_URL
             (time_params live_keys (JStr ''Europe/London'')) 10 = Inr (JObj ?ok)"
    by (simp add: world_time_ok_def)
  have f: "fromtimestamp world_time_ok (JInt 1700000000) = Inr 1700000000"
    by (simp add: world_time_ok_def offline_world_def)
  have b: "http_get world_time_failed TIME_BASE_URL
             (time_params live_keys (JStr ''Europe/London'')) 10 = Inr (JObj ?failed)"
    by (simp add: world_time_failed_def)
  have tz: "ZoneInfo world_time_failed ''Europe/London'' = Some (\<lambda>t. 0)"
    by (simp add: world_time_failed_def offline_world_def)
  have now: "datetime_now world_time_failed (\<lambda>t. 0) = 1700000000"
    by (simp add: datetime_now_def world_time_failed_def offline_world_def)
  note ok = live_key_table_city_queries_time_endpoint
    [OF sample_truthy_time_key sample_zone_London,
      of world_time_ok ?ok "JInt 1700000000" 1700000000 "\<lambda>t. 0"]
  note failed = live_key_table_city_queries_time_endpoint
    [OF sample_truthy_time_key sample_zone_London,
      of world_time_failed ?failed "JInt 0" 0 "\<lambda>t. 0"]
  from ok a f have 1: "requests_sent live_keys world_time_ok ''London''
       = [(TIME_BASE_URL, time_params live_keys (JStr ''Europe/London''), 10)]"
    by blast
  from ok a f have 2: "get_current_time live_keys world_time_ok ''London'' =
       Inr [(''status'', JStr ''success''),
            (''report'',
               JStr ''The current time in London (Europe/London) is 22:13 on 2023-11-14.''),
            (''data'', JObj [(''city'', JStr ''London''),
                             (''timezone'', JStr ''Europe/London''),
                             (''timestamp'', JInt 1700000000),
                             (''formatted_time'', JStr ''22:13''),
                             (''formatted_date'', JStr ''2023-11-14'')])]"
    by (simp add: sample_HM sample_Ymd)
  from failed b have 3: "get_current_time live_keys world_time_failed ''London''
       = Inr (get_fallback_time world_time_failed ''London'')"
    by simp
  from failed tz have 4: "map_of (get_fallback_time world_time_failed ''London'') ''report''
       = Some (JStr ''The current time in London is 22:13.'')"
    by (simp add: now sample_HM)
  from sample_truthy_time_key sample_zone_London 1 2 3 4 5 show ?thesis
    by blast
qed

text \<open>
  C1 as stated fails: with a key configured and the endpoint answering, the resolver
  for London does send a request to the time-by-zone endpoint and returns the long
  report with the date, not the short one.
\<close>

theorem live_key_table_city_counterexample:
  "truthy (TIMEZONEDB_API_KEY live_keys)
   \<and> city_normalized world_time_ok ''London'' = ''london''
   \<and> map_of FALLBACK_TIMEZONES ''london'' = Some ''Europe/London''
   \<and> get_current_time_run live_keys world_time_ok ''London'' =
       ([(''https://api.timezonedb.com/v2.1/get-time-zone'',
          [(''key'', JStr ''t-key''), (''format'', JStr ''json''),
           (''by'', JStr ''zone''), (''zone'', JStr ''Europe/London'')],
          10)],
        Inr [(''status'', JStr ''success''),
             (''report'',
                JStr ''The current time in London (Europe/London) is 22:13 on 2023-11-14.''),
             (''data'', JObj [(''city'', JStr ''London''),
                              (''timezone'', JStr ''Europe/London''),
                              (''timestamp'', JInt 1700000000),
                              (''formatted_time'', JStr ''22:13''),
                              (''formatted_date'', JStr ''2023-11-14'')])])"
proof -
  let ?ok = "[(''status'', JStr ''OK''), (''timestamp'', JInt 1700000000)]"
  have a: "http_get world_time_ok TIME_BASE_URL
             (time_params live_keys (JStr ''Europe/London'')) 10 = Inr (JObj ?ok)"
    by (simp add: world_time_ok_def)
  have f: "fromtimestamp world_time_ok (JInt 1700000000) = Inr 1700000000"
    by (simp add: world_time_ok_def offline_world_def)
  have q: "query_time live_keys world_time_ok ''London'' (JStr ''Europe/London'') =
        Inr [(''status'', JStr ''success''),
             (''report'',
                JStr ''The current time in London (Europe/London) is 22:13 on 2023-11-14.''),
             (''data'', JObj [(''city'', JStr ''London''),
                              (''timezone'', JStr ''Europe/London''),
                              (''timestamp'', JInt 1700000000),
                              (''formatted_time'', JStr ''22:13''),
                              (''formatted_date'', JStr ''2023-11-14'')])]"
    using query_time_success [OF a _ _ f, of "''London''"]
    by (simp add: fmt_def sample_HM sample_Ymd)
  have p: "time_params live_keys (JStr ''Europe/London'') =
          [(''key'', JStr ''t-key''), (''format'', JStr ''json''),
           (''by'', JStr ''zone''), (''zone'', JStr ''Europe/London'')]"
    by (simp add: time_params_def live_keys_def load_config_def optional_str_def)
  have z: "map_of FALLBACK_TIMEZONES ''london'' = Some ''Europe/London''"
    by (simp add: FALLBACK_TIMEZONES_def)
  from get_current_time_table [OF sample_truthy_time_key sample_zone_London, of world_time_ok]
  have "get_current_time_run live_keys world_time_ok ''London'' =
       ([(''https://api.timezonedb.com/v2.1/get-time-zone'',
          [(''key'', JStr ''t-key''), (''format'', JStr ''json''),
           (''by'', JStr ''zone''), (''zone'', JStr ''Europe/London'')],
          10)],
        Inr [(''status'', JStr ''success''),
             (''report'',
                JStr ''The current time in London (Europe/London) is 22:13 on 2023-11-14.''),
             (''data'', JObj [(''city'', JStr ''London''),
                              (''timezone'', JStr ''Europe/London''),
                              (''timestamp'', JInt 1700000000),
                              (''formatted_time'', JStr ''22:13''),
                              (''formatted_date'', JStr ''2023-11-14'')])])"
    by (simp only: q p time_except_Inr TIME_BASE_URL_def)
  with sample_truthy_time_key sample_London z show ?thesis
    by blast
qed



text \<open>
  C3, as amended. The fallback table has the ten keys newyork, london, tokyo, paris,
  sydney, losangeles, chicago, mumbai, beijing and moscow. For every city whose
  lowercased, space-stripped form is one of them, with no live-time credential
  configured: when the zone database of the runtime has the table's zone, the result
  has status \<open>success\<close> and the report "The current time in {city} is HH:MM." with an
  HH:MM time; when \<open>ZoneInfo\<close> raises for the zone, the exception is caught and the
  result is the error "Sorry, I don't have timezone information for '{city}'.".
\<close>

theorem fallback_time_for_table_city:
  assumes "\<not> truthy (TIMEZONEDB_API_KEY cfg)"
      and "map_of FALLBACK_TIMEZONES (city_normalized w city) = Some zone"
  shows "map fst FALLBACK_TIMEZONES =
           [''newyork'', ''london'', ''tokyo'', ''paris'', ''sydney'', ''losangeles'',
            ''chicago'', ''mumbai'', ''beijing'', ''moscow'']
       \<and> (ZoneInfo w zone = Some tz \<longrightarrow>
            (\<exists>r. get_current_time cfg w city = Inr r
               \<and> map_of r ''status'' = Some (JStr ''success'')
               \<and> map_of r ''report'' =
                   Some (JStr (''The current time in '' @ city @ '' is ''
                               @ strftime_HM (datetime_now w tz) @ ''.'')))
            \<and> is_HHMM (strftime_HM (datetime_now w tz)))
       \<and> (ZoneInfo w zone = None \<longrightarrow>
            get_current_time cfg w city =
              Inr [(''status'', JStr ''error''),
                   (''error_message'',
                      JStr (''Sorry, I don't have timezone information for ''
                            @ [CHR 0x27] @ city @ [CHR 0x27] @ ''.''))])"
proof -
  have res: "get_current_time cfg w city = Inr (get_fallback_time w city)"
    using assms(1) by (simp add: get_current_time_def get_current_time_no_key)
  have known: "\<exists>r. get_current_time cfg w city = Inr r
               \<and> map_of r ''status'' = Some (JStr ''success'')
               \<and> map_of r ''report'' =
                   Some (JStr (''The current time in '' @ city @ '' is ''
                               @ strftime_HM (datetime_now w tz) @ ''.''))"
    if "ZoneInfo w zone = Some tz"
    using get_fallback_time_known [OF assms(2) that] by (simp add: res)
  have unknown: "get_current_time cfg w city =
              Inr [(''status'', JStr ''error''),
                   (''error_message'',
                      JStr (''Sorry, I don't have timezone information for ''
                            @ [CHR 0x27] @ city @ [CHR 0x27] @ ''.''))]"
    if "ZoneInfo w zone = None"
    using get_fallback_time_no_zone [OF assms(2) that]
    by (simp add: res time_error_def quoted_def)
  have table: "map fst FALLBACK_TIMEZONES =
           [''newyork'', ''london'', ''tokyo'', ''paris'', ''sydney'', ''losangeles'',
            ''chicago'', ''mumbai'', ''beijing'', ''moscow'']"
    by (simp add: FALLBACK_TIMEZONES_def)
  from table known unknown strftime_HM_shape show ?thesis
    by blast
qed

text \<open>The theorem at Tokyo, on a machine that has the zone and on one that has not.\<close>

theorem fallback_time_for_table_city_witness:
  "\<not> truthy (TIMEZONEDB_API_KEY no_keys)
   \<and> map_of FALLBACK_TIMEZONES (city_normalized offline_world ''Tokyo'') = Some ''Asia/Tokyo''
   \<and> ZoneInfo offline_world ''Asia/Tokyo'' = Some (\<lambda>t. 32400)
   \<and> (\<exists>r. get_current_time no_keys offline_world ''Tokyo'' = Inr r
          \<and> map_of r ''status'' = Some (JStr ''success'')
          \<and> map_of r ''report'' = Some (JStr ''The current time in Tokyo is 07:13.''))
   \<and> is_HHMM ''07:13''
   \<and> ZoneInfo world_without_tzdata ''Asia/Tokyo'' = None
   \<and> get_current_time no_keys world_without_tzdata ''Tokyo'' =
         Inr [(''status'', JStr ''error''),
              (''error_message'',
                 JStr (''Sorry, I don't have timezone information for ''
                       @ [CHR 0x27] @ ''Tokyo'' @ [CHR 0x27] @ ''.''))]"
proof -
  have tz: "ZoneInfo offline_world ''Asia/Tokyo'' = Some (\<lambda>t. 32400)"
    by (simp add: offline_world_def)
  have no: "ZoneInfo world_without_tzdata ''Asia/Tokyo'' = None"
    by (simp add: world_without_tzdata_def)
  have now: "datetime_now offline_world (\<lambda>t. 32400) = 1700032400"
    by (simp add: datetime_now_def offline_world_def)
  have hm: "strftime_HM 1700032400 = ''07:13''"
    by code_simp
  note has = fallback_time_for_table_city
    [OF sample_no_time_key sample_zone_Tokyo, of offline_world "\<lambda>t. 32400"]
  note lacks = fallback_time_for_table_city
    [OF sample_no_time_key sample_zone_Tokyo, of world_without_tzdata "\<lambda>t. 32400"]
  from has tz have 1: "\<exists>r. get_current_time no_keys offline_world ''Tokyo'' = Inr r
          \<and> map_of r ''status'' = Some (JStr ''success'')
          \<and> map_of r ''report'' = Some (JStr ''The current time in Tokyo is 07:13.'')"
    by (simp add: now hm)
  from has tz have 2: "is_HHMM ''07:13''"
    by (simp add: now hm)
  from lacks no have 3: "get_current_time no_keys world_without_tzdata ''Tokyo'' =
         Inr [(''status'', JStr ''error''),
              (''error_message'',
                 JStr (''Sorry, I don't have timezone information for ''
                       @ [CHR 0x27] @ ''Tokyo'' @ [CHR 0x27] @ ''.''))]"
    by blast
  from sample_no_time_key sample_zone_Tokyo tz no 1 2 3 show ?thesis
    by blast
qed

text \<open>
  C3 as stated fails where the runtime has no time-zone data: London is in the table
  and no credential is configured, yet the result is an error.
\<close>

theorem fallback_time_for_table_city_counterexample:
  "\<not> truthy (TIMEZONEDB_API_KEY no_keys)
   \<and> city_normalized world_without_tzdata ''London'' = ''london''
   \<and> map_of FALLBACK_TIMEZONES ''london'' = Some ''Europe/London''
   \<and> get_current_time no_keys world_without_tzdata ''London'' =
         Inr [(''status'', JStr ''error''),
              (''error_message'',
                 JStr (''Sorry, I don't have timezone information for ''
                       @ [CHR 0x27] @ ''London'' @ [CHR 0x27] @ ''.''))]"
proof -
  have no: "ZoneInfo world_without_tzdata ''Europe/London'' = None"
    by (simp add: world_without_tzdata_def)
  have z: "map_of FALLBACK_TIMEZONES ''london'' = Some ''Europe/London''"
    by (simp add: FALLBACK_TIMEZONES_def)
  have "get_current_time no_keys world_without_tzdata ''London''
          = Inr (time_error ''London'')"
    using get_fallback_time_no_zone [OF sample_zone_London no]
    by (simp add: get_current_time_def get_current_time_no_key [OF sample_no_time_key])
  then have "get_current_time no_keys world_without_tzdata ''London'' =
         Inr [(''status'', JStr ''error''),
              (''error_message'',
                 JStr (''Sorry, I don't have timezone information for ''
                       @ [CHR 0x27] @ ''London'' @ [CHR 0x27] @ ''.''))]"
    by (simp add: time_error_def quoted_def)
  with sample_no_time_key sample_London z show ?thesis
    by blast
qed

text \<open>
  C4. For every city whose normalized key is not in the fallback table, with no
  live-time credential configured, the result is the error with the message "Sorry, I
  don't have timezone information for '{city}'." around the city as it was given.
\<close>

theorem fallback_time_unknown_city:
  assumes "\<not> truthy (TIMEZONEDB_API_KEY cfg)"
      and "city_normalized w city \<notin> set (map fst FALLBACK_TIMEZONES)"
  shows "get_current_time cfg w city =
           Inr [(''status'', JStr ''error''),
                (''error_message'',
                   JStr (''Sorry, I don't have timezone information for ''
                         @ [CHR 0x27] @ city @ [CHR 0x27] @ ''.''))]"
proof -
  from assms(2) have "map_of FALLBACK_TIMEZONES (city_normalized w city) = None"
    by (simp add: map_of_eq_None_iff)
  then have "get_fallback_time w city = time_error city"
    by (rule get_fallback_time_unknown)
  with assms(1) show ?thesis
    by (simp add: get_current_time_def get_current_time_no_key time_error_def quoted_def)
qed

text \<open>The theorem at Nowhereville.\<close>

theorem fallback_time_unknown_city_witness:
  "\<not> truthy (TIMEZONEDB_API_KEY no_keys)
   \<and> city_normalized offline_world ''Nowhereville'' \<notin> set (map fst FALLBACK_TIMEZONES)
   \<and> get_current_time no_keys offline_world ''Nowhereville'' =
         Inr [(''status'', JStr ''error''),
              (''error_message'',
                 JStr (''Sorry, I don't have timezone information for ''
                       @ [CHR 0x27] @ ''Nowhereville'' @ [CHR 0x27] @ ''.''))]"
proof -
  have n: "city_normalized offline_world ''Nowhereville''
             \<notin> set (map fst FALLBACK_TIMEZONES)"
    by (simp add: sample_Nowhereville FALLBACK_TIMEZONES_def)
  from fallback_time_unknown_city [OF sample_no_time_key n] sample_no_time_key n
  show ?thesis by blast
qed

text \<open>
  C5: the code at London, in mock mode. The table has three entries and the result is
  the canned success, but the report that the source holds ends in the character
  U+C9F8 (bytes \<open>EC A7 B8\<close>) and F, where the degree sign (bytes \<open>C2 B0\<close>) was meant:
  it is not the sentence "It's cloudy in London with a temperature of 55(degree)F.".
\<close>

theorem mock_weather_London_report:
  "map fst mock_weather = [''newyork'', ''london'', ''tokyo'']
   \<and> get_weather no_keys offline_world ''London'' =
       Inr [(''status'', JStr ''success''),
            (''report'', JStr (''It's cloudy in London with a temperature of 55''
                               @ [CHR 0xEC, CHR 0xA7, CHR 0xB8] @ ''F.''))]
   \<and> ''It's cloudy in London with a temperature of 55'' @ [CHR 0xEC, CHR 0xA7, CHR 0xB8] @ ''F.''
       \<noteq> ''It's cloudy in London with a temperature of 55'' @ [CHR 0xC2, CHR 0xB0] @ ''F.''"
proof -
  have "get_weather no_keys offline_world ''London''
          = Inr (get_mock_weather offline_world ''London'')"
    using sample_no_weather_key by (rule get_weather_mock_mode)
  then have "get_weather no_keys offline_world ''London'' =
       Inr [(''status'', JStr ''success''),
            (''report'', JStr (''It's cloudy in London with a temperature of 55''
                               @ [CHR 0xEC, CHR 0xA7, CHR 0xB8] @ ''F.''))]"
    by (simp add: get_mock_weather_cases sample_London unit_F_def)
  moreover have "map fst mock_weather = [''newyork'', ''london'', ''tokyo'']"
    by (simp add: mock_weather_def)
  ultimately show ?thesis by simp
qed

text \<open>
  C6: the code with a live-weather credential, when the answer has every field but an
  empty \<open>weather\<close> list. \<open>data['weather'][0]\<close> raises \<open>IndexError\<close>, which neither
  \<open>except\<close> clause names: the call raises instead of returning the error "Received
  invalid weather data for 'London'.".
\<close>

theorem get_weather_raises_on_empty_weather_list:
  "truthy (OPENWEATHER_API_KEY live_keys)
   \<and> http_get world_empty_weather WEATHER_BASE_URL (weather_params live_keys ''London'') 10 =
        Inr (JObj [(''name'', JStr ''London''),
                   (''sys'', JObj [(''country'', JStr ''GB'')]),
                   (''main'', JObj [(''temp'', JInt 55), (''humidity'', JInt 80),
                                    (''pressure'', JInt 1012)]),
                   (''weather'', JArr []),
                   (''wind'', JObj [(''speed'', JInt 4)])])
   \<and> get_weather live_keys world_empty_weather ''London'' = Inl IndexError"
proof -
  have a: "http_get world_empty_weather WEATHER_BASE_URL (weather_params live_keys ''London'') 10 =
        Inr (JObj [(''name'', JStr ''London''),
                   (''sys'', JObj [(''country'', JStr ''GB'')]),
                   (''main'', JObj [(''temp'', JInt 55), (''humidity'', JInt 80),
                                    (''pressure'', JInt 1012)]),
                   (''weather'', JArr []),
                   (''wind'', JObj [(''speed'', JInt 4)])])"
    by (simp add: world_empty_weather_def)
  have "get_weather_try live_keys world_empty_weather ''London'' = Inl IndexError"
    by (simp add: get_weather_try_def sample_truthy_weather_key a subscript_def subscript0_def)
  then have "get_weather live_keys world_empty_weather ''London'' = Inl IndexError"
    by (simp add: get_weather_not_caught)
  with sample_truthy_weather_key a show ?thesis by simp
qed

text \<open>
  What the \<open>except\<close> clauses of \<open>get_current_time\<close> do catch: a request error, a
  \<open>KeyError\<close> and a \<open>ValueError\<close> from the body give the fallback result, and no
  exception that leaves the function is one of these.
\<close>

lemma get_current_time_caught:
  assumes "snd (get_current_time_try cfg w city) = Inl e"
      and "e = RequestException \<or> e = KeyError \<or> e = ValueError"
  shows "get_current_time cfg w city = Inr (get_fallback_time w city)"
  using assms
  by (simp add: get_current_time_def get_current_time_run_def split_beta time_except_caught)

lemma get_current_time_escaping:
  assumes "get_current_time cfg w city = Inl e"
  shows "e \<noteq> RequestException \<and> e \<noteq> KeyError \<and> e \<noteq> ValueError"
proof (cases "snd (get_current_time_try cfg w city)")
  case (Inl x)
  with assms show ?thesis
    by (cases x) (simp_all add: get_current_time_def get_current_time_run_def split_beta
        time_except_def)
next
  case (Inr r)
  with assms show ?thesis
    by (simp add: get_current_time_def get_current_time_run_def split_beta time_except_def)
qed

text \<open>
  C7: the code with a live-time credential, when the time endpoint answers with a JSON
  array. \<open>data.get('status')\<close> raises \<open>AttributeError\<close>, which neither \<open>except\<close> clause
  names: the error of reading the answer leaves \<open>get_current_time\<close> instead of being
  turned into the fallback result.
\<close>

theorem get_current_time_raises_on_array_answer:
  "truthy (TIMEZONEDB_API_KEY live_keys)
   \<and> http_get world_array_body TIME_BASE_URL (time_params live_keys (JStr ''Europe/London'')) 10
       = Inr (JArr [])
   \<and> get_current_time live_keys world_array_body ''London'' = Inl AttributeError"
proof -
  have a: "http_get world_array_body TIME_BASE_URL
             (time_params live_keys (JStr ''Europe/London'')) 10 = Inr (JArr [])"
    by (simp add: world_array_body_def)
  have "query_time live_keys world_array_body ''London'' (JStr ''Europe/London'')
          = Inl AttributeError"
    using a by (rule query_time_not_a_dict) simp
  then have "get_current_time live_keys world_array_body ''London'' = Inl AttributeError"
    using get_current_time_table [OF sample_truthy_time_key sample_zone_London, of world_array_body]
    by (simp add: get_current_time_def time_except_not_caught)
  with sample_truthy_time_key a show ?thesis by simp
qed

text \<open>
  C8. With no credential configured, two calls with the same city on the same runtime
  (the same case tables and zone database; the clock and the network may differ) give
  the same weather result, and time results with the same status that are either equal
  or are both the report "The current time in {city} is HH:MM." with two HH:MM times;
  on the same clock reading the time results are equal.
\<close>

theorem no_credential_results_depend_on_clock_only:
  assumes "\<not> truthy (TIMEZONEDB_API_KEY cfg)"
      and "\<not> truthy (OPENWEATHER_API_KEY cfg)"
      and "unicode_lower w2 = unicode_lower w1"
      and "ZoneInfo w2 = ZoneInfo w1"
  shows "get_weather cfg w2 city = get_weather cfg w1 city
       \<and> (\<exists>r1 r2. get_current_time cfg w1 city = Inr r1
             \<and> get_current_time cfg w2 city = Inr r2
             \<and> map_of r2 ''status'' = map_of r1 ''status''
             \<and> (r2 = r1
                  \<or> (\<exists>t1 t2. is_HHMM t1 \<and> is_HHMM t2
                        \<and> map_of r1 ''report'' =
                            Some (JStr (''The current time in '' @ city @ '' is '' @ t1 @ ''.''))
                        \<and> map_of r2 ''report'' =
                            Some (JStr (''The current time in '' @ city @ '' is '' @ t2 @ ''.''))))
             \<and> (clock w2 = clock w1 \<longrightarrow> r2 = r1))"
proof -
  have key: "city_normalized w2 city = city_normalized w1 city"
    using assms(3) by (rule city_normalized_cong)
  have weather: "get_weather cfg w2 city = get_weather cfg w1 city"
    using assms(2) by (simp add: get_weather_mock_mode get_mock_weather_def key)
  have t1: "get_current_time cfg w1 city = Inr (get_fallback_time w1 city)"
    and t2: "get_current_time cfg w2 city = Inr (get_fallback_time w2 city)"
    using assms(1) by (simp_all add: get_current_time_def get_current_time_no_key)
  let ?r1 = "get_fallback_time w1 city" and ?r2 = "get_fallback_time w2 city"
  have "map_of ?r2 ''status'' = map_of ?r1 ''status''
        \<and> (?r2 = ?r1
             \<or> (\<exists>t1 t2. is_HHMM t1 \<and> is_HHMM t2
                   \<and> map_of ?r1 ''report'' =
                       Some (JStr (''The current time in '' @ city @ '' is '' @ t1 @ ''.''))
                   \<and> map_of ?r2 ''report'' =
                       Some (JStr (''The current time in '' @ city @ '' is '' @ t2 @ ''.''))))
        \<and> (clock w2 = clock w1 \<longrightarrow> ?r2 = ?r1)"
  proof (cases "map_of FALLBACK_TIMEZONES (city_normalized w1 city)")
    case None
    then have "?r1 = time_error city" "?r2 = time_error city"
      by (simp_all add: get_fallback_time_unknown key)
    then show ?thesis by simp
  next
    case (Some zone)
    show ?thesis
    proof (cases "ZoneInfo w1 zone")
      case None
      with Some assms(4) have "?r1 = time_error city" "?r2 = time_error city"
        by (simp_all add: get_fallback_time_no_zone key)
      then show ?thesis by simp
    next
      case tz: (Some tz)
      note r1 = get_fallback_time_known [OF Some tz]
      from Some tz assms(4) have r2: "?r2 =
         [(''status'', JStr ''success''),
          (''report'', JStr (''The current time in '' @ city @ '' is ''
                             @ strftime_HM (datetime_now w2 tz) @ ''.'')),
          (''data'', JObj [(''city'', JStr city), (''timezone'', JStr zone),
                           (''formatted_time'', JStr (strftime_HM (datetime_now w2 tz)))])]"
        by (simp add: get_fallback_time_known key)
      have same: "clock w2 = clock w1 \<Longrightarrow> datetime_now w2 tz = datetime_now w1 tz"
        by (simp add: datetime_now_def)
      have "is_HHMM (strftime_HM (datetime_now w1 tz))"
        "is_HHMM (strftime_HM (datetime_now w2 tz))"
        by (rule strftime_HM_shape)+
      then have "\<exists>t1 t2. is_HHMM t1 \<and> is_HHMM t2
                   \<and> map_of ?r1 ''report'' =
                       Some (JStr (''The current time in '' @ city @ '' is '' @ t1 @ ''.''))
                   \<and> map_of ?r2 ''report'' =
                       Some (JStr (''The current time in '' @ city @ '' is '' @ t2 @ ''.''))"
        unfolding r1 r2 by (intro exI [of _ "strftime_HM (datetime_now w1 tz)"]
            exI [of _ "strftime_HM (datetime_now w2 tz)"]) simp
      moreover have "map_of ?r2 ''status'' = map_of ?r1 ''status''"
        unfolding r1 r2 by simp
      moreover have "clock w2 = clock w1 \<longrightarrow> ?r2 = ?r1"
        unfolding r1 r2 using same by simp
      ultimately show ?thesis by blast
    qed
  qed
  with weather t1 t2 show ?thesis by blast
qed

text \<open>
  The theorem at Tokyo, for two calls an hour and five minutes apart: 07:13 and 08:18.
\<close>

theorem no_credential_results_witness:
  "\<not> truthy (TIMEZONEDB_API_KEY no_keys)
   \<and> \<not> truthy (OPENWEATHER_API_KEY no_keys)
   \<and> unicode_lower later_world = unicode_lower offline_world
   \<and> ZoneInfo later_world = ZoneInfo offline_world
   \<and> get_weather no_keys later_world ''Tokyo'' = get_weather no_keys offline_world ''Tokyo''
   \<and> (\<exists>r1 r2. get_current_time no_keys offline_world ''Tokyo'' = Inr r1
          \<and> get_current_time no_keys later_world ''Tokyo'' = Inr r2
          \<and> map_of r2 ''status'' = map_of r1 ''status''
          \<and> (r2 = r1
               \<or> (\<exists>t1 t2. is_HHMM t1 \<and> is_HHMM t2
                     \<and> map_of r1 ''report'' =
                         Some (JStr (''The current time in '' @ ''Tokyo'' @ '' is '' @ t1 @ ''.''))
                     \<and> map_of r2 ''report'' =
                         Some (JStr (''The current time in '' @ ''Tokyo'' @ '' is '' @ t2 @ ''.'')))))
   \<and> map_of (get_fallback_time offline_world ''Tokyo'') ''report''
        = Some (JStr ''The current time in Tokyo is 07:13.'')
   \<and> map_of (get_fallback_time later_world ''Tokyo'') ''report''
        = Some (JStr ''The current time in Tokyo is 08:18.'')"
proof -
  have l: "unicode_lower later_world = unicode_lower offline_world"
    by (simp add: later_world_def)
  have z: "ZoneInfo later_world = ZoneInfo offline_world"
    by (simp add: later_world_def)
  have tz: "ZoneInfo offline_world ''Asia/Tokyo'' = Some (\<lambda>t. 32400)"
    "ZoneInfo later_world ''Asia/Tokyo'' = Some (\<lambda>t. 32400)"
    by (simp_all add: later_world_def offline_world_def)
  have now: "datetime_now offline_world (\<lambda>t. 32400) = 1700032400"
    "datetime_now later_world (\<lambda>t. 32400) = 1700036300"
    by (simp_all add: datetime_now_def later_world_def offline_world_def)
  have hm: "strftime_HM 1700032400 = ''07:13''" "strftime_HM 1700036300 = ''08:18''"
    by code_simp+
  have a: "map_of (get_fallback_time offline_world ''Tokyo'') ''report''
        = Some (JStr ''The current time in Tokyo is 07:13.'')"
    using get_fallback_time_known [OF sample_zone_Tokyo tz(1)] by (simp add: now hm)
  have b: "map_of (get_fallback_time later_world ''Tokyo'') ''report''
        = Some (JStr ''The current time in Tokyo is 08:18.'')"
    using get_fallback_time_known [OF sample_zone_Tokyo tz(2)] by (simp add: now hm)
  from no_credential_results_depend_on_clock_only
         [OF sample_no_time_key sample_no_weather_key l z, of "''Tokyo''"]
       sample_no_time_key sample_no_weather_key l z a b
  show ?thesis by blast
qed

text \<open>
  C9. In mock mode (no live-weather credential) the result for a city of the mock table
  is a success whose only keys are \<open>status\<close> and \<open>report\<close>: it has no \<open>data\<close>.
\<close>

theorem mock_weather_success_has_no_data:
  assumes "\<not> truthy (OPENWEATHER_API_KEY cfg)"
      and "city_normalized w city \<in> set (map fst mock_weather)"
  shows "\<exists>r. get_weather cfg w city = Inr r
           \<and> map_of r ''status'' = Some (JStr ''success'')
           \<and> keys r = [''status'', ''report'']
           \<and> \<not> has_key r ''data''"
proof -
  from assms(2) have "city_normalized w city = ''newyork''
      \<or> city_normalized w city = ''london'' \<or> city_normalized w city = ''tokyo''"
    by (simp add: mock_weather_def)
  then have "map_of (get_mock_weather w city) ''status'' = Some (JStr ''success'')
           \<and> keys (get_mock_weather w city) = [''status'', ''report'']
           \<and> \<not> has_key (get_mock_weather w city) ''data''"
    by (auto simp: get_mock_weather_cases keys_def has_key_def)
  with get_weather_mock_mode [OF assms(1)] show ?thesis
    by blast
qed

text \<open>The theorem at New York.\<close>

theorem mock_weather_success_witness:
  "\<not> truthy (OPENWEATHER_API_KEY no_keys)
   \<and> city_normalized offline_world ''New York'' \<in> set (map fst mock_weather)
   \<and> (\<exists>r. get_weather no_keys offline_world ''New York'' = Inr r
          \<and> map_of r ''status'' = Some (JStr ''success'')
          \<and> keys r = [''status'', ''report'']
          \<and> \<not> has_key r ''data'')"
proof -
  have n: "city_normalized offline_world ''New York'' \<in> set (map fst mock_weather)"
    by (simp add: sample_New_York mock_weather_def)
  from mock_weather_success_has_no_data [OF sample_no_weather_key n] sample_no_weather_key n
  show ?thesis by blast
qed

text \<open>
  C10. \<open>validate_config\<close> returns, in their order, exactly those of GOOGLE_API_KEY,
  GOOGLE_MAPS_PLATFORM_API_KEY, OPIK_API_KEY and OPIK_WORKSPACE whose environment
  variable is unset or empty, and never OPENWEATHER_API_KEY or TIMEZONEDB_API_KEY. So
  when the four are set and those two are not, the configuration check finds nothing,
  the sidebar shows "Configuration OK", and both services answer from their mock and
  fallback tables without sending a request.
\<close>

theorem validate_config_ignores_service_keys:
  "validate_config (load_config getenv) =
     filter (\<lambda>v. getenv v = None \<or> getenv v = Some [])
       [''GOOGLE_API_KEY'', ''GOOGLE_MAPS_PLATFORM_API_KEY'', ''OPIK_API_KEY'', ''OPIK_WORKSPACE'']
   \<and> ''OPENWEATHER_API_KEY'' \<notin> set (validate_config (load_config getenv))
   \<and> ''TIMEZONEDB_API_KEY'' \<notin> set (validate_config (load_config getenv))
   \<and> (truthy (getenv ''GOOGLE_API_KEY'') \<and> truthy (getenv ''GOOGLE_MAPS_PLATFORM_API_KEY'')
        \<and> truthy (getenv ''OPIK_API_KEY'') \<and> truthy (getenv ''OPIK_WORKSPACE'')
        \<and> \<not> truthy (getenv ''OPENWEATHER_API_KEY'') \<and> \<not> truthy (getenv ''TIMEZONEDB_API_KEY'')
      \<longrightarrow> validate_config (load_config getenv) = []
          \<and> is_production_ready (load_config getenv)
          \<and> check_configuration (load_config getenv) = None
          \<and> configuration_status (load_config getenv)
              = St_success ([CHR 0xE2, CHR 0x9C, CHR 0x85] @ '' Configuration OK'')
          \<and> get_weather (load_config getenv) w city = Inr (get_mock_weather w city)
          \<and> get_current_time (load_config getenv) w city = Inr (get_fallback_time w city)
          \<and> requests_sent (load_config getenv) w city = [])"
proof -
  let ?cfg = "load_config getenv"
  have unset: "\<not> truthy v \<longleftrightarrow> v = None \<or> v = Some []" for v
    by (cases v) (simp_all add: truthy_def)
  have list: "validate_config ?cfg =
     filter (\<lambda>v. getenv v = None \<or> getenv v = Some [])
       [''GOOGLE_API_KEY'', ''GOOGLE_MAPS_PLATFORM_API_KEY'', ''OPIK_API_KEY'', ''OPIK_WORKSPACE'']"
    by (simp add: validate_config_def load_config_def Let_def unset)
  have not_in: "''OPENWEATHER_API_KEY'' \<notin> set (validate_config ?cfg)"
    "''TIMEZONEDB_API_KEY'' \<notin> set (validate_config ?cfg)"
    by (simp_all add: list)
  have complete: "validate_config ?cfg = []
          \<and> is_production_ready ?cfg
          \<and> check_configuration ?cfg = None
          \<and> configuration_status ?cfg
              = St_success ([CHR 0xE2, CHR 0x9C, CHR 0x85] @ '' Configuration OK'')
          \<and> get_weather ?cfg w city = Inr (get_mock_weather w city)
          \<and> get_current_time ?cfg w city = Inr (get_fallback_time w city)
          \<and> requests_sent ?cfg w city = []"
    if set: "truthy (getenv ''GOOGLE_API_KEY'')" "truthy (getenv ''GOOGLE_MAPS_PLATFORM_API_KEY'')"
        "truthy (getenv ''OPIK_API_KEY'')" "truthy (getenv ''OPIK_WORKSPACE'')"
      and mock: "\<not> truthy (getenv ''OPENWEATHER_API_KEY'')"
      and fallback: "\<not> truthy (getenv ''TIMEZONEDB_API_KEY'')"
  proof -
    from set have v: "validate_config ?cfg = []"
      by (simp add: validate_config_def load_config_def Let_def)
    have wk: "\<not> truthy (OPENWEATHER_API_KEY ?cfg)" and tk: "\<not> truthy (TIMEZONEDB_API_KEY ?cfg)"
      using mock fallback by (simp_all add: load_config_def)
    have c: "check_configuration ?cfg = None"
      by (simp add: check_configuration_def v)
    have s: "configuration_status ?cfg
              = St_success ([CHR 0xE2, CHR 0x9C, CHR 0x85] @ '' Configuration OK'')"
      by (simp add: configuration_status_def c)
    have p: "is_production_ready ?cfg"
      by (simp add: is_production_ready_def v)
    from v p c s get_weather_mock_mode [OF wk] get_current_time_no_key [OF tk]
    show ?thesis
      by (simp add: get_current_time_def requests_sent_def)
  qed
  from list not_in complete show ?thesis
    by blast
qed

text \<open>
  The theorem on an environment with the four agent keys and neither service key, and
  on the empty environment.
\<close>

theorem validate_config_witness:
  "truthy (agent_keys ''GOOGLE_API_KEY'') \<and> truthy (agent_keys ''GOOGLE_MAPS_PLATFORM_API_KEY'')
   \<and> truthy (agent_keys ''OPIK_API_KEY'') \<and> truthy (agent_keys ''OPIK_WORKSPACE'')
   \<and> \<not> truthy (agent_keys ''OPENWEATHER_API_KEY'') \<and> \<not> truthy (agent_keys ''TIMEZONEDB_API_KEY'')
   \<and> validate_config (load_config agent_keys) = []
   \<and> check_configuration (load_config agent_keys) = None
   \<and> get_weather (load_config agent_keys) offline_world ''London''
       = Inr (get_mock_weather offline_world ''London'')
   \<and> get_current_time (load_config agent_keys) offline_world ''London''
       = Inr (get_fallback_time offline_world ''London'')
   \<and> requests_sent (load_config agent_keys) offline_world ''London'' = []
   \<and> validate_config (load_config Map.empty) =
       [''GOOGLE_API_KEY'', ''GOOGLE_MAPS_PLATFORM_API_KEY'', ''OPIK_API_KEY'', ''OPIK_WORKSPACE'']"
proof -
  have k: "truthy (agent_keys ''GOOGLE_API_KEY'')"
    "truthy (agent_keys ''GOOGLE_MAPS_PLATFORM_API_KEY'')"
    "truthy (agent_keys ''OPIK_API_KEY'')" "truthy (agent_keys ''OPIK_WORKSPACE'')"
    "\<not> truthy (agent_keys ''OPENWEATHER_API_KEY'')"
    "\<not> truthy (agent_keys ''TIMEZONEDB_API_KEY'')"
    by (simp_all add: agent_keys_def truthy_def)
  from validate_config_ignores_service_keys [of agent_keys offline_world "''London''"] k
  have 1: "validate_config (load_config agent_keys) = []
   \<and> check_configuration (load_config agent_keys) = None
   \<and> get_weather (load_config agent_keys) offline_world ''London''
       = Inr (get_mock_weather offline_world ''London'')
   \<and> get_current_time (load_config agent_keys) offline_world ''London''
       = Inr (get_fallback_time offline_world ''London'')
   \<and> requests_sent (load_config agent_keys) offline_world ''London'' = []"
    by blast
  from validate_config_ignores_service_keys [of Map.empty]
  have 2: "validate_config (load_config Map.empty) =
       [''GOOGLE_API_KEY'', ''GOOGLE_MAPS_PLATFORM_API_KEY'', ''OPIK_API_KEY'', ''OPIK_WORKSPACE'']"
    by simp
  from k 1 2 show ?thesis by blast
qed

end
